theory Spec2Isabelle
  imports Complex_Main "HOL-Library.Word"
begin

section \<open>The terrain visualiser of \<^verbatim>\<open>src/app.py\<close>\<close>

text \<open>
  The class \<^verbatim>\<open>Terrain\<close> is embedded as a record and its methods as functions on it.
  Python floats are read as real numbers, Python integers that count or index as natural
  numbers, the bytes of an audio buffer as 8-bit words. The OpenSimplex generator is a
  library outside the program: its method \<^verbatim>\<open>noise2\<close> is a field of the record, any function
  of two reals. The audio stream is outside the program too: the buffer that
  \<^verbatim>\<open>stream.read\<close> returns is an argument of \<^verbatim>\<open>update\<close>.
\<close>

subsection \<open>Errors\<close>

text \<open>
  \<^verbatim>\<open>struct.error\<close> is what \<^verbatim>\<open>struct.unpack\<close> raises on a buffer of the wrong size,
  \<^verbatim>\<open>ValueError\<close> what \<^verbatim>\<open>reshape\<close> raises on a size mismatch and \<^verbatim>\<open>np.arange\<close> on a zero step.
\<close>

datatype error = StructError | ValueError

subsection \<open>The object\<close>

type_synonym vertex = "real \<times> real \<times> real"

type_synonym mesh_data = "vertex list \<times> nat list list \<times> real list list"

record Terrain =
  nsteps :: real
  offset :: real
  ypoints :: "real list"
  xpoints :: "real list"
  nfaces :: nat
  RATE :: nat
  CHUNK :: nat
  noise2 :: "real \<Rightarrow> real \<Rightarrow> real"
  mountains :: "(vertex list \<times> nat list list \<times> real list list option) option"

subsection \<open>Library functions the methods call\<close>

text \<open>
  \<^verbatim>\<open>np.arange(start, stop, step)\<close> on floats: \<open>ceil((stop - start) / step)\<close> values
  \<open>start + i * step\<close>, none when that count is negative, an error when the step is zero.
\<close>

definition arange :: "real \<Rightarrow> real \<Rightarrow> real \<Rightarrow> error + real list" where
  "arange start stop step =
     (if step = 0 then Inl ValueError
      else Inr (map (\<lambda>i. start + real i * step) [0..<nat \<lceil>(stop - start) / step\<rceil>]))"

text \<open>
  \<^verbatim>\<open>struct.unpack(str(n) + "B", buf)\<close>: the \<open>n\<close> bytes of the buffer as unsigned integers,
  an error unless the buffer holds exactly \<open>n\<close> bytes.
\<close>

definition struct_unpack_B :: "nat \<Rightarrow> 8 word list \<Rightarrow> error + nat list" where
  "struct_unpack_B n buf = (if length buf = n then Inr (map unat buf) else Inl StructError)"

text \<open>
  \<^verbatim>\<open>np.array(values, dtype="b")\<close>: each integer stored as a signed 8-bit value. The values
  here are between 0 and 255 and the conversion wraps those from 128 on to the negative
  range (NumPy 1.x; the later sum with 128 is then computed in 16 bits, where it is exact).
\<close>

definition to_int8 :: "nat \<Rightarrow> int" where
  "to_int8 v = sint (word_of_nat v :: 8 word)"

text \<open>The slice \<^verbatim>\<open>[::2]\<close>: every second element, from the first.\<close>

fun every_second :: "'a list \<Rightarrow> 'a list" where
  "every_second [] = []"
| "every_second [x] = [x]"
| "every_second (x # y # xs) = x # every_second xs"

text \<open>
  \<^verbatim>\<open>a.reshape((r, c))\<close> of a one-dimensional array: \<open>r\<close> rows of \<open>c\<close> elements in row-major
  order, an error unless the array holds exactly \<open>r * c\<close> elements.
\<close>

definition reshape :: "nat \<Rightarrow> nat \<Rightarrow> 'a list \<Rightarrow> error + 'a list list" where
  "reshape r c xs =
     (if length xs = r * c then Inr (map (\<lambda>i. take c (drop (i * c) xs)) [0..<r])
      else Inl ValueError)"

subsection \<open>\<^verbatim>\<open>Terrain.mesh\<close>\<close>

text \<open>
  Lines 89 to 91: the unpacked values as signed 8-bit values, every second one of them,
  plus 128, then as 32-bit integers minus 128, then times \<open>0.02\<close>.
\<close>

definition decode_samples :: "nat list \<Rightarrow> real list" where
  "decode_samples vals =
     (let w1 = map (\<lambda>v. v + 128) (every_second (map to_int8 vals));
          w2 = map (\<lambda>v. v - 128) w1
      in map (\<lambda>v. real_of_int v * 0.02) w2)"

text \<open>Lines 88 to 92: the waveform branch.\<close>

definition decode_waveform :: "Terrain \<Rightarrow> 8 word list \<Rightarrow> error + real list list" where
  "decode_waveform st buf =
     (case struct_unpack_B (2 * CHUNK st) buf of
        Inl e \<Rightarrow> Inl e
      | Inr vals \<Rightarrow>
          reshape (length (xpoints st)) (length (ypoints st)) (decode_samples vals))"

text \<open>Lines 94 and 95: the branch without a waveform.\<close>

definition default_waveform :: "Terrain \<Rightarrow> error + real list list" where
  "default_waveform st =
     reshape (length (xpoints st)) (length (ypoints st)) (replicate 1024 1)"

text \<open>Lines 99 to 112: the vertex comprehension, \<open>x\<close> outside and \<open>y\<close> inside.\<close>

definition verts :: "Terrain \<Rightarrow> real list list \<Rightarrow> vertex list" where
  "verts st wform =
     concat (map (\<lambda>(xid, x).
       map (\<lambda>(yid, y).
         (x, y, wform ! xid ! yid
                  * noise2 st (real xid / 5 + offset st) (real yid / 5 + offset st)))
         (enumerate 0 (ypoints st)))
       (enumerate 0 (xpoints st)))"

text \<open>Lines 114 to 132: the two triangles and the two colours appended for each quad.\<close>

definition quad_faces :: "nat \<Rightarrow> nat \<Rightarrow> nat \<Rightarrow> nat list list" where
  "quad_faces nf yoffset xid =
     [[xid + yoffset, xid + yoffset + nf, xid + yoffset + nf + 1],
      [xid + yoffset, xid + yoffset + 1, xid + yoffset + nf + 1]]"

definition quad_colors :: "real list list" where
  "quad_colors = [[0.1, 0.3, 0, 0.35], [0.09, 0.3, 0, 0.35]]"

text \<open>
  \<^verbatim>\<open>range(self.nfaces - 1)\<close> is empty when \<open>nfaces\<close> is 0, as \<open>[0..<nf - 1]\<close> is with the
  subtraction of natural numbers.
\<close>

definition faces :: "nat \<Rightarrow> nat list list" where
  "faces nf =
     concat (map (\<lambda>yid. concat (map (\<lambda>xid. quad_faces nf (yid * nf) xid) [0..<nf - 1]))
       [0..<nf - 1])"

definition colors :: "nat \<Rightarrow> real list list" where
  "colors nf =
     concat (map (\<lambda>yid. concat (map (\<lambda>xid. quad_colors) [0..<nf - 1])) [0..<nf - 1])"

text \<open>Lines 87 to 95: the amplitude matrix, from the waveform or the default.\<close>

definition amplitude :: "Terrain \<Rightarrow> 8 word list option \<Rightarrow> error + real list list" where
  "amplitude st waveform =
     (case waveform of Some buf \<Rightarrow> decode_waveform st buf | None \<Rightarrow> default_waveform st)"

text \<open>
  The method. Its parameters \<open>off\<close> (\<^verbatim>\<open>offset\<close>) and \<open>height\<close> are declared and, as in the
  source, read nowhere in the body: the comprehension reads \<^verbatim>\<open>self.offset\<close>.
\<close>

definition mesh :: "Terrain \<Rightarrow> real \<Rightarrow> real \<Rightarrow> 8 word list option \<Rightarrow> error + mesh_data" where
  "mesh st off height waveform =
     (case amplitude st waveform of
        Inl e \<Rightarrow> Inl e
      | Inr wform \<Rightarrow> Inr (verts st wform, faces (nfaces st), colors (nfaces st)))"

text \<open>
  The identity of the arrays \<^verbatim>\<open>mesh\<close> returns. A heap is the list of the arrays created so
  far and a reference is a position in it; \<^verbatim>\<open>np.array(...)\<close> creates a new array behind
  the others. Lines 99, 134 and 135 create the three arrays in this order; the
  temporary arrays of the waveform branch are not returned and are left out.
\<close>

datatype ndarray =
  VertArray "vertex list" | IndexArray "nat list list" | ColorArray "real list list"

type_synonym heap = "ndarray list"

definition np_array :: "heap \<Rightarrow> ndarray \<Rightarrow> nat \<times> heap" where
  "np_array h a = (length h, h @ [a])"

definition mesh_refs ::
  "heap \<Rightarrow> Terrain \<Rightarrow> real \<Rightarrow> real \<Rightarrow> 8 word list option
     \<Rightarrow> error + ((nat \<times> nat \<times> nat) \<times> heap)" where
  "mesh_refs h st off height waveform =
     (case mesh st off height waveform of
        Inl e \<Rightarrow> Inl e
      | Inr (v, f, c) \<Rightarrow>
          (case np_array h (VertArray v) of (rv, h1) \<Rightarrow>
           case np_array h1 (IndexArray f) of (rf, h2) \<Rightarrow>
           case np_array h2 (ColorArray c) of (rc, h3) \<Rightarrow>
             Inr ((rv, rf, rc), h3)))"

subsection \<open>\<^verbatim>\<open>Terrain.__init__\<close>\<close>

text \<open>
  Lines 41 to 61 with the bounds and the step as parameters; the source has \<open>-20\<close>, \<open>20\<close>
  and \<open>1.3\<close>. The mesh item does not exist yet.
\<close>

definition init_fields ::
  "real \<Rightarrow> real \<Rightarrow> real \<Rightarrow> (real \<Rightarrow> real \<Rightarrow> real) \<Rightarrow> error + Terrain" where
  "init_fields lo hi ns nz =
     (case arange lo (hi + ns) ns of
        Inl e \<Rightarrow> Inl e
      | Inr ys \<Rightarrow>
         (case arange lo (hi + ns) ns of
            Inl e \<Rightarrow> Inl e
          | Inr xs \<Rightarrow>
              Inr \<lparr>nsteps = ns, offset = 0, ypoints = ys, xpoints = xs,
                   nfaces = length ys, RATE = 44100, CHUNK = length xs * length ys,
                   noise2 = nz, mountains = None\<rparr>))"

text \<open>
  The constructor: the fields, then line 63, the first mesh, built without a waveform and
  given to the mesh item without its colours.
\<close>

definition Terrain_init :: "(real \<Rightarrow> real \<Rightarrow> real) \<Rightarrow> error + Terrain" where
  "Terrain_init nz =
     (case init_fields (-20) 20 1.3 nz of
        Inl e \<Rightarrow> Inl e
      | Inr st \<Rightarrow>
         (case mesh st 0 1.5 None of
            Inl e \<Rightarrow> Inl e
          | Inr (v, f, c) \<Rightarrow> Inr (st\<lparr>mountains := Some (v, f, None)\<rparr>)))"

text \<open>The object the constructor returns.\<close>

definition the_terrain :: "(real \<Rightarrow> real \<Rightarrow> real) \<Rightarrow> Terrain" where
  "the_terrain nz = projr (Terrain_init nz)"

subsection \<open>\<^verbatim>\<open>Terrain.update\<close> and the timer\<close>

text \<open>
  One tick: \<open>wf_data\<close> is what \<^verbatim>\<open>self.stream.read(self.CHUNK)\<close> returned. An exception of
  \<^verbatim>\<open>mesh\<close> leaves the method before the mesh item and the offset are written.
\<close>

definition update :: "Terrain \<Rightarrow> 8 word list \<Rightarrow> error + Terrain" where
  "update st wf_data =
     (case mesh st (offset st) 1.5 (Some wf_data) of
        Inl e \<Rightarrow> Inl e
      | Inr (v, f, c) \<Rightarrow>
          Inr (st\<lparr>mountains := Some (v, f, Some c), offset := offset st - 0.059\<rparr>))"

text \<open>The timer of \<^verbatim>\<open>animation\<close> calls \<^verbatim>\<open>update\<close> once for each buffer, one call after the other.\<close>

fun ticks :: "Terrain \<Rightarrow> 8 word list list \<Rightarrow> error + Terrain" where
  "ticks st [] = Inr st"
| "ticks st (b # bs) = (case update st b of Inl e \<Rightarrow> Inl e | Inr st' \<Rightarrow> ticks st' bs)"

section \<open>Facts about the library functions and the loops\<close>

lemma length_every_second: "length (every_second xs) = (length xs + 1) div 2"
  by (induction xs rule: every_second.induct) simp_all

lemma nth_every_second: "2 * i < length xs \<Longrightarrow> every_second xs ! i = xs ! (2 * i)"
proof (induction xs arbitrary: i rule: every_second.induct)
  case 1
  then show ?case by simp
next
  case (2 x)
  then show ?case by simp
next
  case (3 x y xs)
  then show ?case by (cases i) simp_all
qed

lemma length_concat_uniform:
  "\<forall>xs \<in> set xss. length xs = c \<Longrightarrow> length (concat xss) = length xss * c"
  by (induction xss) simp_all

lemma nth_concat_uniform:
  "\<forall>xs \<in> set xss. length xs = c \<Longrightarrow> i < length xss \<Longrightarrow> j < c \<Longrightarrow>
   concat xss ! (i * c + j) = xss ! i ! j"
proof (induction xss arbitrary: i)
  case Nil
  then show ?case by simp
next
  case (Cons xs xss)
  show ?case
  proof (cases i)
    case 0
    with Cons.prems show ?thesis by (simp add: nth_append)
  next
    case (Suc k)
    with Cons.prems have "concat xss ! (k * c + j) = xss ! k ! j"
      by (intro Cons.IH) simp_all
    with Suc Cons.prems show ?thesis by (simp add: nth_append add.assoc)
  qed
qed

lemma reshape_Inr_iff: "reshape r c xs = Inr m \<longleftrightarrow>
   length xs = r * c \<and> m = map (\<lambda>i. take c (drop (i * c) xs)) [0..<r]"
  by (auto simp: reshape_def)

lemma cell_bound: "i < r \<Longrightarrow> j < c \<Longrightarrow> i * c + j < r * (c::nat)"
proof -
  assume a: "i < r" "j < c"
  then have "i * c + j < i * c + c" by simp
  also have "\<dots> = Suc i * c" by simp
  also from a have "\<dots> \<le> r * c" by (intro mult_le_mono1) simp
  finally show ?thesis .
qed

lemma reshape_shape:
  assumes "reshape r c xs = Inr m"
  shows "length m = r" and "i < r \<Longrightarrow> length (m ! i) = c"
    and "i < r \<Longrightarrow> j < c \<Longrightarrow> m ! i ! j = xs ! (i * c + j)"
proof -
  from assms have len: "length xs = r * c"
    and m: "m = map (\<lambda>i. take c (drop (i * c) xs)) [0..<r]"
    by (simp_all add: reshape_Inr_iff)
  show "length m = r" by (simp add: m)
  { assume i: "i < r"
    then have "i * c + c \<le> r * c" using mult_le_mono1 [of "Suc i" r c] by simp
    with i show "length (m ! i) = c" by (simp add: m len) }
  { assume i: "i < r" and j: "j < c"
    then show "m ! i ! j = xs ! (i * c + j)" by (simp add: m len) }
qed

lemma reshape_replicate:
  "n = r * c \<Longrightarrow> reshape r c (replicate n x) = Inr (replicate r (replicate c x))"
proof -
  assume n: "n = r * c"
  have "map (\<lambda>i. take c (drop (i * c) (replicate (r * c) x))) [0..<r] = replicate r (replicate c x)"
  proof (rule nth_equalityI)
    show "length (map (\<lambda>i. take c (drop (i * c) (replicate (r * c) x))) [0..<r]) =
      length (replicate r (replicate c x))" by simp
  next
    fix i assume "i < length (map (\<lambda>i. take c (drop (i * c) (replicate (r * c) x))) [0..<r])"
    then have i: "i < r" by simp
    then have "i * c + c \<le> r * c" using mult_le_mono1 [of "Suc i" r c] by simp
    then have "min (r * c - i * c) c = c" by simp
    with i show "map (\<lambda>i. take c (drop (i * c) (replicate (r * c) x))) [0..<r] ! i =
      replicate r (replicate c x) ! i" by simp
  qed
  with n show ?thesis by (simp add: reshape_def)
qed

lemma length_verts: "length (verts st a) = length (xpoints st) * length (ypoints st)"
proof -
  let ?row = "\<lambda>(xid, x). map (\<lambda>(yid, y).
         (x, y, a ! xid ! yid
                  * noise2 st (real xid / 5 + offset st) (real yid / 5 + offset st)))
         (enumerate 0 (ypoints st))"
  let ?rows = "map ?row (enumerate 0 (xpoints st))"
  have "length (concat ?rows) = length ?rows * length (ypoints st)"
    by (rule length_concat_uniform) auto
  then show ?thesis by (simp add: verts_def)
qed

lemma nth_verts:
  assumes "xid < length (xpoints st)" and "yid < length (ypoints st)"
  shows "verts st a ! (xid * length (ypoints st) + yid) =
    (xpoints st ! xid, ypoints st ! yid,
     a ! xid ! yid * noise2 st (real xid / 5 + offset st) (real yid / 5 + offset st))"
proof -
  let ?row = "\<lambda>(xid, x). map (\<lambda>(yid, y).
         (x, y, a ! xid ! yid
                  * noise2 st (real xid / 5 + offset st) (real yid / 5 + offset st)))
         (enumerate 0 (ypoints st))"
  let ?rows = "map ?row (enumerate 0 (xpoints st))"
  have "concat ?rows ! (xid * length (ypoints st) + yid) = ?rows ! xid ! yid"
    using assms by (intro nth_concat_uniform) auto
  also have "\<dots> = (xpoints st ! xid, ypoints st ! yid,
     a ! xid ! yid * noise2 st (real xid / 5 + offset st) (real yid / 5 + offset st))"
    using assms by (simp add: nth_enumerate_eq)
  finally show ?thesis by (simp add: verts_def)
qed

lemma length_faces: "length (faces nf) = 2 * (nf - 1) ^ 2"
proof -
  let ?row = "\<lambda>yid. concat (map (\<lambda>xid. quad_faces nf (yid * nf) xid) [0..<nf - 1])"
  have row: "length (?row yid) = (nf - 1) * 2" for yid
  proof -
    have "length (?row yid) = length (map (\<lambda>xid. quad_faces nf (yid * nf) xid) [0..<nf - 1]) * 2"
      by (rule length_concat_uniform) (auto simp: quad_faces_def)
    then show ?thesis by simp
  qed
  have "length (concat (map ?row [0..<nf - 1])) = length (map ?row [0..<nf - 1]) * ((nf - 1) * 2)"
    by (rule length_concat_uniform) (use row in auto)
  then show ?thesis by (simp add: faces_def power2_eq_square)
qed

lemma length_colors: "length (colors nf) = 2 * (nf - 1) ^ 2"
proof -
  let ?row = "\<lambda>yid::nat. concat (map (\<lambda>xid::nat. quad_colors) [0..<nf - 1])"
  have row: "length (?row yid) = (nf - 1) * 2" for yid :: nat
  proof -
    have "length (?row yid) = length (map (\<lambda>xid::nat. quad_colors) [0..<nf - 1]) * 2"
      by (rule length_concat_uniform) (auto simp: quad_colors_def)
    then show ?thesis by simp
  qed
  have "length (concat (map ?row [0..<nf - 1])) = length (map ?row [0..<nf - 1]) * ((nf - 1) * 2)"
    by (rule length_concat_uniform) (use row in auto)
  then show ?thesis by (simp add: colors_def power2_eq_square)
qed

lemma in_faces:
  "f \<in> set (faces nf) \<Longrightarrow>
   \<exists>yid < nf - 1. \<exists>xid < nf - 1. f \<in> set (quad_faces nf (yid * nf) xid)"
  unfolding faces_def by fastforce

lemma quad_faces_ok:
  assumes "f \<in> set (quad_faces nf (yid * nf) xid)" and "yid < nf - 1" and "xid < nf - 1"
  shows "length f = 3" and "distinct f" and "\<forall>v \<in> set f. v < nf ^ 2"
proof -
  from assms(1) consider
    "f = [xid + yid * nf, xid + yid * nf + nf, xid + yid * nf + nf + 1]"
    | "f = [xid + yid * nf, xid + yid * nf + 1, xid + yid * nf + nf + 1]"
    by (auto simp: quad_faces_def)
  note cases = this
  from assms have nf: "1 < nf" by simp
  from assms have "Suc yid * nf + Suc xid < nf * nf"
    by (intro cell_bound) simp_all
  then have top: "xid + yid * nf + nf + 1 < nf ^ 2"
    by (simp add: power2_eq_square add.commute add.left_commute)
  show "length f = 3" using cases by cases simp_all
  show "distinct f" using cases nf by cases simp_all
  show "\<forall>v \<in> set f. v < nf ^ 2" using cases top by cases auto
qed

lemma arange_Inr:
  "step \<noteq> 0 \<Longrightarrow>
   arange start stop step =
     Inr (map (\<lambda>i. start + real i * step) [0..<nat \<lceil>(stop - start) / step\<rceil>])"
  by (simp add: arange_def)

lemma init_fields_Inr:
  assumes "ns \<noteq> 0"
  shows "init_fields lo hi ns nz =
    Inr \<lparr>nsteps = ns, offset = 0,
         ypoints = map (\<lambda>i. lo + real i * ns) [0..<nat \<lceil>(hi + ns - lo) / ns\<rceil>],
         xpoints = map (\<lambda>i. lo + real i * ns) [0..<nat \<lceil>(hi + ns - lo) / ns\<rceil>],
         nfaces = nat \<lceil>(hi + ns - lo) / ns\<rceil>, RATE = 44100,
         CHUNK = nat \<lceil>(hi + ns - lo) / ns\<rceil> * nat \<lceil>(hi + ns - lo) / ns\<rceil>,
         noise2 = nz, mountains = None\<rparr>"
  using assms by (simp add: init_fields_def arange_Inr)

lemma source_count: "nat \<lceil>(20 + 1.3 - (- 20)) / (1.3::real)\<rceil> = 32"
  by simp

lemma to_int8_unat: "to_int8 (unat (b :: 8 word)) = sint b"
  by (simp add: to_int8_def)

lemma decode_waveform_error:
  "length buf \<noteq> 2 * CHUNK st \<Longrightarrow> decode_waveform st buf = Inl StructError"
  by (simp add: decode_waveform_def struct_unpack_B_def)

lemma length_decode_samples:
  "length vals = 2 * n \<Longrightarrow> length (decode_samples vals) = n"
  by (simp add: decode_samples_def length_every_second)

lemma nth_decode_samples:
  fixes buf :: "8 word list"
  assumes "length buf = 2 * n" and "k < n"
  shows "decode_samples (map unat buf) ! k = real_of_int (sint (buf ! (2 * k))) * 0.02"
proof -
  from assms have k: "2 * k < length (map to_int8 (map unat buf))" by simp
  from assms have "k < length (every_second (map to_int8 (map unat buf)))"
    by (simp add: length_every_second)
  then have "decode_samples (map unat buf) ! k =
    real_of_int (every_second (map to_int8 (map unat buf)) ! k + 128 - 128) * 0.02"
    by (simp add: decode_samples_def)
  also have "every_second (map to_int8 (map unat buf)) ! k = map to_int8 (map unat buf) ! (2 * k)"
    using k by (rule nth_every_second)
  also have "\<dots> = sint (buf ! (2 * k))"
    using k by (simp add: to_int8_unat)
  finally show ?thesis by simp
qed

lemma decode_waveform_reshape:
  "length buf = 2 * CHUNK st \<Longrightarrow>
   decode_waveform st buf =
     reshape (length (xpoints st)) (length (ypoints st)) (decode_samples (map unat buf))"
  by (simp add: decode_waveform_def struct_unpack_B_def)

lemma decode_waveform_Inr:
  assumes "length buf = 2 * CHUNK st"
    and "CHUNK st = length (xpoints st) * length (ypoints st)"
  shows "decode_waveform st buf =
     Inr (map (\<lambda>i. take (length (ypoints st)) (drop (i * length (ypoints st)) (decode_samples (map unat buf))))
            [0..<length (xpoints st)])"
  using assms by (simp add: decode_waveform_reshape reshape_def length_decode_samples)

lemma init_fields_source:
  "init_fields (- 20) 20 1.3 nz =
    Inr \<lparr>nsteps = 1.3, offset = 0,
         ypoints = map (\<lambda>i. - 20 + real i * 1.3) [0..<32],
         xpoints = map (\<lambda>i. - 20 + real i * 1.3) [0..<32],
         nfaces = 32, RATE = 44100, CHUNK = 1024,
         noise2 = nz, mountains = None\<rparr>"
proof -
  have "(1.3::real) \<noteq> 0" by simp
  from init_fields_Inr [OF this, of "- 20" 20 nz] show ?thesis
    by (simp only: source_count) simp
qed

lemma default_waveform_Inr:
  "length (xpoints st) * length (ypoints st) = 1024 \<Longrightarrow>
   default_waveform st =
     Inr (replicate (length (xpoints st)) (replicate (length (ypoints st)) 1))"
  unfolding default_waveform_def by (rule reshape_replicate) simp

lemma mesh_None:
  "length (xpoints st) * length (ypoints st) = 1024 \<Longrightarrow>
   mesh st off height None =
     Inr (verts st (replicate (length (xpoints st)) (replicate (length (ypoints st)) 1)),
          faces (nfaces st), colors (nfaces st))"
  by (simp add: mesh_def amplitude_def default_waveform_Inr)

lemma mesh_Some:
  "length buf = 2 * CHUNK st \<Longrightarrow>
   CHUNK st = length (xpoints st) * length (ypoints st) \<Longrightarrow>
   mesh st off height (Some buf) =
     Inr (verts st (map (\<lambda>i. take (length (ypoints st))
                               (drop (i * length (ypoints st)) (decode_samples (map unat buf))))
                       [0..<length (xpoints st)]),
          faces (nfaces st), colors (nfaces st))"
  by (simp add: mesh_def amplitude_def decode_waveform_Inr)

lemma Terrain_init_Inr:
  "Terrain_init nz =
    Inr \<lparr>nsteps = 1.3, offset = 0,
         ypoints = map (\<lambda>i. - 20 + real i * 1.3) [0..<32],
         xpoints = map (\<lambda>i. - 20 + real i * 1.3) [0..<32],
         nfaces = 32, RATE = 44100, CHUNK = 1024,
         noise2 = nz,
         mountains = Some (verts \<lparr>nsteps = 1.3, offset = 0,
             ypoints = map (\<lambda>i. - 20 + real i * 1.3) [0..<32],
             xpoints = map (\<lambda>i. - 20 + real i * 1.3) [0..<32],
             nfaces = 32, RATE = 44100, CHUNK = 1024,
             noise2 = nz, mountains = None\<rparr> (replicate 32 (replicate 32 1)), faces 32, None)\<rparr>"
  unfolding Terrain_init_def by (simp only: init_fields_source sum.case) (simp add: mesh_None)

lemma Terrain_init_the: "Terrain_init nz = Inr (the_terrain nz)"
  by (simp add: the_terrain_def Terrain_init_Inr)

lemma the_terrain_fields:
  "offset (the_terrain nz) = 0"
  "xpoints (the_terrain nz) = map (\<lambda>i. - 20 + real i * 1.3) [0..<32]"
  "ypoints (the_terrain nz) = map (\<lambda>i. - 20 + real i * 1.3) [0..<32]"
  "nfaces (the_terrain nz) = 32"
  "CHUNK (the_terrain nz) = 1024"
  "noise2 (the_terrain nz) = nz"
  by (simp_all add: the_terrain_def Terrain_init_Inr)

lemma update_Inr:
  assumes "length buf = 2 * CHUNK st"
    and "CHUNK st = length (xpoints st) * length (ypoints st)"
  shows "update st buf =
     Inr (st\<lparr>mountains :=
               Some (verts st (map (\<lambda>i. take (length (ypoints st))
                       (drop (i * length (ypoints st)) (decode_samples (map unat buf))))
                       [0..<length (xpoints st)]),
                     faces (nfaces st), Some (colors (nfaces st))),
             offset := offset st - 0.059\<rparr>)"
  by (simp add: update_def mesh_Some [OF assms])

lemma update_fields:
  assumes "update st b = Inr st'"
  shows "offset st' = offset st - 0.059" and "xpoints st' = xpoints st"
    and "ypoints st' = ypoints st" and "nfaces st' = nfaces st"
    and "CHUNK st' = CHUNK st" and "noise2 st' = noise2 st"
    and "nsteps st' = nsteps st" and "RATE st' = RATE st"
  using assms by (auto simp: update_def split: sum.splits)

lemma ticks_fields:
  assumes "ticks st bufs = Inr st'"
  shows "offset st' = offset st - 0.059 * real (length bufs)" and "xpoints st' = xpoints st"
    and "ypoints st' = ypoints st" and "nfaces st' = nfaces st"
    and "CHUNK st' = CHUNK st" and "noise2 st' = noise2 st"
  using assms
proof (induction bufs arbitrary: st)
  case Nil
  { case 1 then show ?case by simp }
  { case 2 then show ?case by simp }
  { case 3 then show ?case by simp }
  { case 4 then show ?case by simp }
  { case 5 then show ?case by simp }
  { case 6 then show ?case by simp }
next
  case (Cons b bufs)
  { case 1
    then obtain s where s: "update st b = Inr s" "ticks s bufs = Inr st'"
      by (auto split: sum.splits)
    with Cons.IH(1) [of s] update_fields(1) [of st b s] show ?case
      by (simp add: field_simps) }
  { case 2
    then obtain s where s: "update st b = Inr s" "ticks s bufs = Inr st'"
      by (auto split: sum.splits)
    with Cons.IH(2) [of s] update_fields(2) [of st b s] show ?case by simp }
  { case 3
    then obtain s where s: "update st b = Inr s" "ticks s bufs = Inr st'"
      by (auto split: sum.splits)
    with Cons.IH(3) [of s] update_fields(3) [of st b s] show ?case by simp }
  { case 4
    then obtain s where s: "update st b = Inr s" "ticks s bufs = Inr st'"
      by (auto split: sum.splits)
    with Cons.IH(4) [of s] update_fields(4) [of st b s] show ?case by simp }
  { case 5
    then obtain s where s: "update st b = Inr s" "ticks s bufs = Inr st'"
      by (auto split: sum.splits)
    with Cons.IH(5) [of s] update_fields(5) [of st b s] show ?case by simp }
  { case 6
    then obtain s where s: "update st b = Inr s" "ticks s bufs = Inr st'"
      by (auto split: sum.splits)
    with Cons.IH(6) [of s] update_fields(6) [of st b s] show ?case by simp }
qed

lemma ticks_Inr:
  assumes "\<forall>b \<in> set bufs. length b = 2 * CHUNK st"
    and "CHUNK st = length (xpoints st) * length (ypoints st)"
  shows "\<exists>st'. ticks st bufs = Inr st'"
  using assms
proof (induction bufs arbitrary: st)
  case Nil
  then show ?case by simp
next
  case (Cons b bufs)
  from Cons.prems have b: "length b = 2 * CHUNK st" by simp
  from update_Inr [OF b Cons.prems(2)] obtain s where s: "update st b = Inr s" by blast
  from update_fields [OF s] Cons.prems
  have "\<forall>b \<in> set bufs. length b = 2 * CHUNK s"
    and "CHUNK s = length (xpoints s) * length (ypoints s)" by simp_all
  from Cons.IH [OF this] s show ?case by simp
qed

lemma the_terrain_lengths:
  "length (xpoints (the_terrain nz)) = 32" "length (ypoints (the_terrain nz)) = 32"
  by (simp_all add: the_terrain_fields)

lemma the_terrain_points:
  "i < 32 \<Longrightarrow> xpoints (the_terrain nz) ! i = - 20 + real i * 1.3"
  "i < 32 \<Longrightarrow> ypoints (the_terrain nz) ! i = - 20 + real i * 1.3"
  by (simp_all add: the_terrain_fields)

lemma the_terrain_mesh_None:
  "mesh (the_terrain nz) off height None =
     Inr (verts (the_terrain nz) (replicate 32 (replicate 32 1)), faces 32, colors 32)"
  using mesh_None [of "the_terrain nz" off height] by (simp add: the_terrain_fields)

lemma the_terrain_amplitude_None:
  "amplitude (the_terrain nz) None = Inr (replicate 32 (replicate 32 1))"
  using default_waveform_Inr [of "the_terrain nz"]
  by (simp add: amplitude_def the_terrain_fields)

lemma first_face: "1 < nf \<Longrightarrow> [0, nf, nf + 1] \<in> set (faces nf)"
  by (auto simp: faces_def quad_faces_def intro!: bexI [of _ 0])

lemma mesh_refs_Inr:
  assumes "mesh_refs h st off height waveform = Inr ((rv, rf, rc), h')"
  shows "\<exists>v. mesh st off height waveform = Inr (v, faces (nfaces st), colors (nfaces st))
    \<and> rv = length h \<and> rf = length h + 1 \<and> rc = length h + 2
    \<and> h' = h @ [VertArray v, IndexArray (faces (nfaces st)), ColorArray (colors (nfaces st))]"
proof -
  from assms obtain v f c where m: "mesh st off height waveform = Inr (v, f, c)"
    by (auto simp: mesh_refs_def split: sum.splits)
  then have "f = faces (nfaces st)" "c = colors (nfaces st)"
    by (auto simp: mesh_def split: sum.splits)
  with m assms show ?thesis by (auto simp: mesh_refs_def np_array_def)
qed

lemma mesh_refs_of_mesh:
  "mesh st off height waveform = Inr (v, f, c) \<Longrightarrow>
   mesh_refs h st off height waveform =
     Inr ((length h, length h + 1, length h + 2),
          h @ [VertArray v, IndexArray f, ColorArray c])"
  by (simp add: mesh_refs_def np_array_def)

lemma the_terrain_mesh_Some:
  "length buf = 2048 \<Longrightarrow>
   mesh (the_terrain nz) off height (Some buf) =
     Inr (verts (the_terrain nz)
            (map (\<lambda>i. take 32 (drop (i * 32) (decode_samples (map unat buf)))) [0..<32]),
          faces 32, colors 32)"
  using mesh_Some [of buf "the_terrain nz" off height]
  by (simp add: the_terrain_fields(4,5) the_terrain_lengths)

section \<open>Properties\<close>

text \<open>
  C10. The parameters \<open>offset\<close> and \<open>height\<close> of \<^verbatim>\<open>mesh\<close> do not affect its result: with the
  object and the waveform fixed, any two offsets and any two heights give the same
  vertices, faces and colours (or the same error).
\<close>

theorem mesh_ignores_offset_and_height:
  "mesh st off1 height1 waveform = mesh st off2 height2 waveform"
  by (simp add: mesh_def)

text \<open>
  C1, as amended. For every grid cell \<open>(xid, yid)\<close> the vertex emitted for it, at position
  \<open>xid * len(ypoints) + yid\<close>, is \<open>(xpoints[xid], ypoints[yid], z)\<close> with
  \<open>z = amplitude[xid][yid] * noise2(xid / 5 + offset, yid / 5 + offset)\<close>: the noise is
  sampled at the grid indices divided by 5, not at the grid coordinates. The shift is the
  stored offset of the object; the statement is made for the calls whose offset argument
  equals it, as in every call the program makes.
\<close>

theorem mesh_vertex_height:
  assumes "amplitude st waveform = Inr amp" and "off = offset st"
    and "xid < length (xpoints st)" and "yid < length (ypoints st)"
  shows "mesh st off height waveform = Inr (verts st amp, faces (nfaces st), colors (nfaces st))
    \<and> verts st amp ! (xid * length (ypoints st) + yid) =
        (xpoints st ! xid, ypoints st ! yid,
         amp ! xid ! yid * noise2 st (real xid / 5 + off) (real yid / 5 + off))"
  using assms by (simp add: mesh_def nth_verts)

text \<open>The constructed object, its first mesh and the cell \<open>(3, 4)\<close>, with addition as the noise.\<close>

theorem mesh_vertex_height_witness:
  "amplitude (the_terrain (+)) None = Inr (replicate 32 (replicate 32 1))
   \<and> (0::real) = offset (the_terrain (+))
   \<and> (3::nat) < length (xpoints (the_terrain (+)))
   \<and> (4::nat) < length (ypoints (the_terrain (+)))
   \<and> mesh (the_terrain (+)) 0 1.5 None =
        Inr (verts (the_terrain (+)) (replicate 32 (replicate 32 1)), faces 32, colors 32)
   \<and> verts (the_terrain (+)) (replicate 32 (replicate 32 1)) ! (3 * 32 + 4) =
        (- 16.1, - 14.8, 1.4)"
proof -
  have a: "amplitude (the_terrain (+)) None = Inr (replicate 32 (replicate 32 1))"
    by (rule the_terrain_amplitude_None)
  have o: "(0::real) = offset (the_terrain (+))" by (simp add: the_terrain_fields)
  have x: "(3::nat) < length (xpoints (the_terrain (+)))" by (simp add: the_terrain_lengths)
  have y: "(4::nat) < length (ypoints (the_terrain (+)))" by (simp add: the_terrain_lengths)
  from mesh_vertex_height [OF a o x y, of "1.5"] a o x y show ?thesis
    by (simp add: the_terrain_lengths the_terrain_points the_terrain_fields(4,6))
qed

text \<open>
  C1 as stated fails on the first mesh of the constructed object, at the cell \<open>(0, 0)\<close>
  and with addition as the noise: the grid coordinates are \<open>(-20, -20)\<close>, so the claim
  samples the noise at \<open>(-4, -4)\<close> and gives the height \<open>-8\<close>; the vertex has the height
  \<open>0\<close>, the noise at \<open>(0, 0)\<close>.
\<close>

theorem mesh_samples_grid_coordinates_counterexample:
  "mesh (the_terrain (+)) 0 1.5 None =
     Inr (verts (the_terrain (+)) (replicate 32 (replicate 32 1)), faces 32, colors 32)
   \<and> verts (the_terrain (+)) (replicate 32 (replicate 32 1)) ! 0 = (- 20, - 20, 0)
   \<and> replicate 32 (replicate 32 (1::real)) ! 0 ! 0
        * noise2 (the_terrain (+)) (xpoints (the_terrain (+)) ! 0 / 5 + 0)
                                   (ypoints (the_terrain (+)) ! 0 / 5 + 0) = - 8
   \<and> snd (snd (verts (the_terrain (+)) (replicate 32 (replicate 32 1)) ! 0)) \<noteq>
       replicate 32 (replicate 32 (1::real)) ! 0 ! 0
        * noise2 (the_terrain (+)) (xpoints (the_terrain (+)) ! 0 / 5 + 0)
                                   (ypoints (the_terrain (+)) ! 0 / 5 + 0)"
proof -
  have "verts (the_terrain (+)) (replicate 32 (replicate 32 1))
          ! (0 * length (ypoints (the_terrain (+))) + 0) = (- 20, - 20, 0)"
    by (subst nth_verts)
      (simp_all add: the_terrain_lengths the_terrain_points the_terrain_fields(1,6))
  then have v: "verts (the_terrain (+)) (replicate 32 (replicate 32 1)) ! 0 = (- 20, - 20, 0)"
    by simp
  show ?thesis
    by (simp add: v the_terrain_mesh_None the_terrain_points the_terrain_fields(6))
qed

text \<open>
  C3. A buffer of exactly \<open>2 * CHUNK\<close> bytes decodes to a matrix of \<open>len(xpoints)\<close> rows of
  \<open>len(ypoints)\<close> cells, filled in row-major order: the cell \<open>(i, j)\<close> is the byte at
  position \<open>2 * (i * len(ypoints) + j)\<close>, the low byte of the little-endian 16-bit sample
  of that cell, read as a signed 8-bit value and multiplied by \<open>0.02\<close>. A buffer of zero
  bytes decodes to the zero matrix. \<open>CHUNK\<close> is the number of cells, as line 48 sets it.
\<close>

theorem decode_waveform_cells:
  fixes buf :: "8 word list"
  assumes "length buf = 2 * CHUNK st"
    and "CHUNK st = length (xpoints st) * length (ypoints st)"
  shows "\<exists>m. decode_waveform st buf = Inr m \<and> length m = length (xpoints st) \<and>
    (\<forall>i < length (xpoints st). length (m ! i) = length (ypoints st) \<and>
      (\<forall>j < length (ypoints st).
         m ! i ! j = real_of_int (sint (buf ! (2 * (i * length (ypoints st) + j)))) * 0.02
         \<and> (set buf \<subseteq> {0} \<longrightarrow> m ! i ! j = 0)))"
proof -
  let ?r = "length (xpoints st)" and ?c = "length (ypoints st)"
  let ?xs = "decode_samples (map unat buf)"
  from assms have len: "length ?xs = ?r * ?c" by (simp add: length_decode_samples)
  then obtain m where m: "reshape ?r ?c ?xs = Inr m" by (simp add: reshape_def)
  with assms(1) have dec: "decode_waveform st buf = Inr m"
    by (simp add: decode_waveform_reshape)
  have cell: "m ! i ! j = real_of_int (sint (buf ! (2 * (i * ?c + j)))) * 0.02"
    if "i < ?r" "j < ?c" for i j
  proof -
    from that have k: "i * ?c + j < CHUNK st" by (simp add: assms(2) cell_bound)
    from that have "m ! i ! j = ?xs ! (i * ?c + j)" by (rule reshape_shape(3) [OF m])
    also have "\<dots> = real_of_int (sint (buf ! (2 * (i * ?c + j)))) * 0.02"
      using assms(1) k by (rule nth_decode_samples)
    finally show ?thesis .
  qed
  have zero: "m ! i ! j = 0" if "i < ?r" "j < ?c" "set buf \<subseteq> {0}" for i j
  proof -
    from that have "2 * (i * ?c + j) < length buf"
      using cell_bound [of i ?r j ?c] by (simp add: assms)
    then have "buf ! (2 * (i * ?c + j)) \<in> set buf" by (rule nth_mem)
    with that(3) have "buf ! (2 * (i * ?c + j)) = 0" by auto
    with cell [OF that(1,2)] show ?thesis by simp
  qed
  from dec reshape_shape(1,2) [OF m] cell zero show ?thesis by auto
qed

text \<open>The constructed object, a buffer of 2048 zero bytes and the cell \<open>(3, 4)\<close>.\<close>

theorem decode_waveform_cells_witness:
  "length (replicate 2048 (0 :: 8 word)) = 2 * CHUNK (the_terrain (+))
   \<and> CHUNK (the_terrain (+)) =
       length (xpoints (the_terrain (+))) * length (ypoints (the_terrain (+)))
   \<and> set (replicate 2048 (0 :: 8 word)) \<subseteq> {0}
   \<and> decode_waveform (the_terrain (+)) (replicate 2048 0) = Inr (replicate 32 (replicate 32 0))
   \<and> replicate 32 (replicate 32 (0::real)) ! 3 ! 4
       = real_of_int (sint (replicate 2048 (0 :: 8 word) ! (2 * (3 * 32 + 4)))) * 0.02"
proof -
  let ?T = "the_terrain (+)" and ?buf = "replicate 2048 (0 :: 8 word)"
  have h1: "length ?buf = 2 * CHUNK ?T" by (simp add: the_terrain_fields)
  have h2: "CHUNK ?T = length (xpoints ?T) * length (ypoints ?T)"
    by (simp add: the_terrain_fields)
  from decode_waveform_cells [OF h1 h2] obtain m where
    m: "decode_waveform ?T ?buf = Inr m" "length m = 32"
      "\<forall>i < 32. length (m ! i) = 32 \<and> (\<forall>j < 32. m ! i ! j = 0)"
    by (auto simp: the_terrain_lengths)
  have "m = replicate 32 (replicate 32 0)"
  proof (rule nth_equalityI)
    show "length m = length (replicate 32 (replicate 32 (0::real)))" using m(2) by simp
  next
    fix i assume "i < length m"
    with m(2) have i: "i < 32" by simp
    with m(3) have "m ! i = replicate 32 0"
      by (intro nth_equalityI) simp_all
    with i show "m ! i = replicate 32 (replicate 32 0) ! i" by simp
  qed
  with m(1) h1 h2 show ?thesis by simp
qed

text \<open>
  C4. On a grid of \<open>nfaces\<close> by \<open>nfaces\<close> points (\<open>nfaces\<close> at least 1, as every grid of
  \<^verbatim>\<open>np.arange\<close> between two different bounds is), every mesh that \<^verbatim>\<open>mesh\<close> returns has
  \<open>nfaces\<^sup>2\<close> vertices, \<open>2 * (nfaces - 1)\<^sup>2\<close> faces, each of three different vertex indices
  below \<open>nfaces\<^sup>2\<close>, and as many colours as faces.
\<close>

theorem mesh_counts:
  assumes "length (xpoints st) = nfaces st" and "length (ypoints st) = nfaces st"
    and "0 < nfaces st"
    and "mesh st off height waveform = Inr (vs, fs, cs)"
  shows "length vs = (nfaces st) ^ 2
    \<and> int (length fs) = 2 * (int (nfaces st) - 1) ^ 2
    \<and> (\<forall>f \<in> set fs. length f = 3 \<and> distinct f \<and> (\<forall>v \<in> set f. v < (nfaces st) ^ 2))
    \<and> length cs = length fs"
proof -
  from assms(4) obtain amp where vs: "vs = verts st amp"
    and fs: "fs = faces (nfaces st)" and cs: "cs = colors (nfaces st)"
    by (auto simp: mesh_def split: sum.splits)
  have "length vs = (nfaces st) ^ 2"
    by (simp add: vs length_verts assms(1,2) power2_eq_square)
  moreover have "int (length fs) = 2 * (int (nfaces st) - 1) ^ 2"
  proof -
    from assms(3) have "int (nfaces st - 1) = int (nfaces st) - 1" by simp
    then show ?thesis by (simp add: fs length_faces)
  qed
  moreover have "length f = 3 \<and> distinct f \<and> (\<forall>v \<in> set f. v < (nfaces st) ^ 2)"
    if "f \<in> set fs" for f
  proof -
    from that obtain yid xid where "yid < nfaces st - 1" "xid < nfaces st - 1"
      "f \<in> set (quad_faces (nfaces st) (yid * nfaces st) xid)"
      unfolding fs by (blast dest: in_faces)
    then show ?thesis by (simp add: quad_faces_ok del: One_nat_def)
  qed
  moreover have "length cs = length fs" by (simp add: fs cs length_faces length_colors)
  ultimately show ?thesis by blast
qed

text \<open>The constructed object, its first mesh and the face \<open>[0, 32, 33]\<close>.\<close>

theorem mesh_counts_witness:
  "length (xpoints (the_terrain (+))) = nfaces (the_terrain (+))
   \<and> length (ypoints (the_terrain (+))) = nfaces (the_terrain (+))
   \<and> 0 < nfaces (the_terrain (+))
   \<and> mesh (the_terrain (+)) 0 1.5 None =
        Inr (verts (the_terrain (+)) (replicate 32 (replicate 32 1)), faces 32, colors 32)
   \<and> length (verts (the_terrain (+)) (replicate 32 (replicate 32 1))) = 1024
   \<and> length (faces 32) = 1922
   \<and> length (colors 32) = 1922
   \<and> [0, 32, 33] \<in> set (faces 32)
   \<and> distinct [0, 32, 33 :: nat]"
proof -
  let ?T = "the_terrain (+)"
  have h1: "length (xpoints ?T) = nfaces ?T" and h2: "length (ypoints ?T) = nfaces ?T"
    and h3: "0 < nfaces ?T"
    by (simp_all add: the_terrain_fields)
  have h4: "mesh ?T 0 1.5 None =
     Inr (verts ?T (replicate 32 (replicate 32 1)), faces 32, colors 32)"
    by (rule the_terrain_mesh_None)
  have f: "[0, 32, 33] \<in> set (faces 32)" using first_face [of 32] by simp
  from mesh_counts [OF h1 h2 h3 h4] h1 h2 h3 h4 f show ?thesis
    by (simp add: the_terrain_fields(4))
qed

text \<open>
  C7. Without a waveform the amplitude matrix of the constructed object, after any number
  of ticks, is the matrix of ones of \<open>len(xpoints)\<close> rows of \<open>len(ypoints)\<close> cells, and the
  height of every vertex is 1 times the noise sample of its cell.
\<close>

theorem mesh_without_waveform:
  assumes "Terrain_init nz = Inr st0" and "ticks st0 bufs = Inr st"
    and "xid < length (xpoints st)" and "yid < length (ypoints st)"
  shows "amplitude st None =
      Inr (replicate (length (xpoints st)) (replicate (length (ypoints st)) 1))
    \<and> (\<exists>vs fs cs. mesh st off height None = Inr (vs, fs, cs) \<and>
         vs ! (xid * length (ypoints st) + yid) =
           (xpoints st ! xid, ypoints st ! yid,
            1 * noise2 st (real xid / 5 + offset st) (real yid / 5 + offset st)))"
proof -
  from assms(1) have st0: "st0 = the_terrain nz" by (simp add: Terrain_init_the)
  from ticks_fields(2,3) [OF assms(2)]
  have size: "length (xpoints st) * length (ypoints st) = 1024"
    by (simp add: st0 the_terrain_lengths)
  let ?ones = "replicate (length (xpoints st)) (replicate (length (ypoints st)) (1::real))"
  from size have a: "amplitude st None = Inr ?ones"
    by (simp add: amplitude_def default_waveform_Inr)
  from assms(3,4) have "?ones ! xid ! yid = 1" by simp
  with nth_verts [OF assms(3,4), of ?ones] mesh_None [OF size, of off height] a
  show ?thesis by simp
qed

text \<open>The constructed object before any tick and the cell \<open>(3, 4)\<close>, with addition as the noise.\<close>

theorem mesh_without_waveform_witness:
  "Terrain_init (+) = Inr (the_terrain (+))
   \<and> ticks (the_terrain (+)) [] = Inr (the_terrain (+))
   \<and> (3::nat) < length (xpoints (the_terrain (+)))
   \<and> (4::nat) < length (ypoints (the_terrain (+)))
   \<and> amplitude (the_terrain (+)) None = Inr (replicate 32 (replicate 32 1))
   \<and> fst (projr (mesh (the_terrain (+)) 0 1.5 None)) ! (3 * 32 + 4) = (- 16.1, - 14.8, 1.4)"
proof -
  let ?T = "the_terrain (+)"
  have h1: "Terrain_init (+) = Inr ?T" by (rule Terrain_init_the)
  have h2: "ticks ?T [] = Inr ?T" by simp
  have h3: "(3::nat) < length (xpoints ?T)" and h4: "(4::nat) < length (ypoints ?T)"
    by (simp_all add: the_terrain_lengths)
  from mesh_without_waveform [OF h1 h2 h3 h4, of 0 "1.5"] h1 h2 h3 h4 show ?thesis
    by (auto simp: the_terrain_lengths the_terrain_points the_terrain_fields(1,6))
qed

text \<open>
  C8. A waveform whose length is not \<open>2 * CHUNK\<close> bytes makes \<^verbatim>\<open>mesh\<close> raise and return no
  mesh. Nothing checks the length before \<^verbatim>\<open>struct.unpack\<close>: the error is the one that
  \<^verbatim>\<open>struct.unpack\<close> itself raises.
\<close>

theorem mesh_wrong_length:
  assumes "length buf \<noteq> 2 * CHUNK st"
  shows "struct_unpack_B (2 * CHUNK st) buf = Inl StructError
    \<and> decode_waveform st buf = Inl StructError
    \<and> mesh st off height (Some buf) = Inl StructError"
  using assms by (simp add: mesh_def amplitude_def decode_waveform_def struct_unpack_B_def)

text \<open>The constructed object and a buffer of 2047 bytes.\<close>

theorem mesh_wrong_length_witness:
  "length (replicate 2047 (0 :: 8 word)) \<noteq> 2 * CHUNK (the_terrain (+))
   \<and> mesh (the_terrain (+)) 0 1.5 (Some (replicate 2047 0)) = Inl StructError"
proof -
  have h: "length (replicate 2047 (0 :: 8 word)) \<noteq> 2 * CHUNK (the_terrain (+))"
    by (simp add: the_terrain_fields)
  from mesh_wrong_length [OF h, of 0 "1.5"] h show ?thesis by simp
qed

text \<open>
  C2, as amended. Nothing is kept from the construction: every call of \<^verbatim>\<open>mesh\<close> that
  returns builds the face list and the colour list again, as two arrays that did not
  exist before the call. Their values depend on \<open>nfaces\<close> only, so two calls one after
  the other, whatever their offsets and waveforms, return face lists and colour lists
  that are equal in value and are different arrays.
\<close>

theorem mesh_faces_colors_rebuilt:
  assumes "mesh_refs h st1 off1 height1 w1 = Inr ((rv1, rf1, rc1), h1)"
    and "mesh_refs h1 st2 off2 height2 w2 = Inr ((rv2, rf2, rc2), h2)"
    and "nfaces st2 = nfaces st1"
  shows "h2 ! rf1 = IndexArray (faces (nfaces st1)) \<and> h2 ! rf2 = IndexArray (faces (nfaces st1))
    \<and> h2 ! rc1 = ColorArray (colors (nfaces st1)) \<and> h2 ! rc2 = ColorArray (colors (nfaces st1))
    \<and> length h \<le> rf1 \<and> length h \<le> rc1 \<and> length h1 \<le> rf2 \<and> length h1 \<le> rc2
    \<and> rf1 < length h1 \<and> rc1 < length h1 \<and> rf1 \<noteq> rf2 \<and> rc1 \<noteq> rc2"
proof -
  from mesh_refs_Inr [OF assms(1)] obtain v1 where
    r1: "rf1 = length h + 1" "rc1 = length h + 2"
    and h1: "h1 = h @ [VertArray v1, IndexArray (faces (nfaces st1)),
                       ColorArray (colors (nfaces st1))]"
    by blast
  from mesh_refs_Inr [OF assms(2)] assms(3) obtain v2 where
    r2: "rf2 = length h1 + 1" "rc2 = length h1 + 2"
    and h2: "h2 = h1 @ [VertArray v2, IndexArray (faces (nfaces st1)),
                        ColorArray (colors (nfaces st1))]"
    by auto
  show ?thesis by (simp add: r1 r2 h1 h2 nth_append)
qed

text \<open>
  The constructed object, an empty heap, a call without a waveform and a call with 2048
  zero bytes and another offset.
\<close>

theorem mesh_faces_colors_rebuilt_witness:
  "mesh_refs [] (the_terrain (+)) 0 1.5 None =
     Inr ((0, 1, 2),
          [VertArray (verts (the_terrain (+)) (replicate 32 (replicate 32 1))),
           IndexArray (faces 32), ColorArray (colors 32)])
   \<and> mesh_refs [VertArray (verts (the_terrain (+)) (replicate 32 (replicate 32 1))),
                 IndexArray (faces 32), ColorArray (colors 32)]
        (the_terrain (+)) (- 0.059) 1.5 (Some (replicate 2048 0)) =
     Inr ((3, 4, 5),
          [VertArray (verts (the_terrain (+)) (replicate 32 (replicate 32 1))),
           IndexArray (faces 32), ColorArray (colors 32),
           VertArray (verts (the_terrain (+))
             (map (\<lambda>i. take 32 (drop (i * 32)
                (decode_samples (map unat (replicate 2048 (0 :: 8 word)))))) [0..<32])),
           IndexArray (faces 32), ColorArray (colors 32)])
   \<and> nfaces (the_terrain (+)) = nfaces (the_terrain (+))
   \<and> (1::nat) \<noteq> 4 \<and> (2::nat) \<noteq> 5"
proof -
  let ?T = "the_terrain (+)"
  let ?h1 = "[VertArray (verts ?T (replicate 32 (replicate 32 1))),
              IndexArray (faces 32), ColorArray (colors 32)]"
  let ?v2 = "verts ?T (map (\<lambda>i. take 32 (drop (i * 32)
                (decode_samples (map unat (replicate 2048 (0 :: 8 word)))))) [0..<32])"
  have c1: "mesh_refs [] ?T 0 1.5 None = Inr ((0, 1, 2), ?h1)"
    using mesh_refs_of_mesh [OF the_terrain_mesh_None, of "[]" "(+)" 0 "1.5"] by simp
  have "length (replicate 2048 (0 :: 8 word)) = 2048" by simp
  from mesh_refs_of_mesh [OF the_terrain_mesh_Some [OF this], of ?h1 "(+)" "- 0.059" "1.5"]
  have c2: "mesh_refs ?h1 ?T (- 0.059) 1.5 (Some (replicate 2048 0)) =
    Inr ((3, 4, 5), ?h1 @ [VertArray ?v2, IndexArray (faces 32), ColorArray (colors 32)])"
    by simp
  from mesh_faces_colors_rebuilt [OF c1 c2] c1 c2 show ?thesis by simp
qed

text \<open>
  C2 as stated fails on the same two calls: the second call returns the face list and
  the colour list as the arrays 4 and 5, which it has just created behind the three
  arrays of the first call, not the arrays 1 and 2 that the first call returned.
\<close>

theorem mesh_faces_cached_counterexample:
  "fst (projr (mesh_refs [] (the_terrain (+)) 0 1.5 None)) = (0, 1, 2)
   \<and> length (snd (projr (mesh_refs [] (the_terrain (+)) 0 1.5 None))) = 3
   \<and> fst (projr (mesh_refs (snd (projr (mesh_refs [] (the_terrain (+)) 0 1.5 None)))
            (the_terrain (+)) (- 0.059) 1.5 (Some (replicate 2048 0)))) = (3, 4, 5)
   \<and> fst (snd (fst (projr (mesh_refs [] (the_terrain (+)) 0 1.5 None)))) \<noteq>
       fst (snd (fst (projr (mesh_refs (snd (projr (mesh_refs [] (the_terrain (+)) 0 1.5 None)))
            (the_terrain (+)) (- 0.059) 1.5 (Some (replicate 2048 0))))))"
proof -
  let ?T = "the_terrain (+)"
  let ?h1 = "[VertArray (verts ?T (replicate 32 (replicate 32 1))),
              IndexArray (faces 32), ColorArray (colors 32)]"
  have c1: "mesh_refs [] ?T 0 1.5 None = Inr ((0, 1, 2), ?h1)"
    using mesh_refs_of_mesh [OF the_terrain_mesh_None, of "[]" "(+)" 0 "1.5"] by simp
  have "length (replicate 2048 (0 :: 8 word)) = 2048" by simp
  from mesh_refs_of_mesh [OF the_terrain_mesh_Some [OF this], of ?h1 "(+)" "- 0.059" "1.5"]
  have c2: "fst (projr (mesh_refs ?h1 ?T (- 0.059) 1.5 (Some (replicate 2048 0)))) = (3, 4, 5)"
    by simp
  from c1 c2 show ?thesis by simp
qed

text \<open>
  C5. For every step greater than 0 and all bounds the constructor's fields hold a square
  grid: \<open>xpoints\<close> and \<open>ypoints\<close> are the same arithmetic progression from the lower
  bound, of \<open>nfaces\<close> points each, and \<open>CHUNK\<close> is \<open>len(xpoints) * len(ypoints)\<close>, that is
  \<open>nfaces\<^sup>2\<close>. The ticks that follow, whatever the mesh item holds, change none of them.
\<close>

theorem init_fields_grid:
  assumes "0 < ns"
  shows "\<exists>st. init_fields lo hi ns nz = Inr st
    \<and> length (xpoints st) = length (ypoints st) \<and> nfaces st = length (ypoints st)
    \<and> (\<forall>i < nfaces st. xpoints st ! i = lo + real i * ns \<and> ypoints st ! i = lo + real i * ns)
    \<and> CHUNK st = length (xpoints st) * length (ypoints st) \<and> CHUNK st = (nfaces st) ^ 2
    \<and> (\<forall>m bufs st'. ticks (st\<lparr>mountains := m\<rparr>) bufs = Inr st' \<longrightarrow>
          xpoints st' = xpoints st \<and> ypoints st' = ypoints st \<and> nfaces st' = nfaces st
          \<and> CHUNK st' = CHUNK st)"
proof -
  from assms have "ns \<noteq> 0" by simp
  note st = init_fields_Inr [OF this, of lo hi nz]
  have "xpoints st' = xpoints s \<and> ypoints st' = ypoints s \<and> nfaces st' = nfaces s
      \<and> CHUNK st' = CHUNK s"
    if "ticks (s\<lparr>mountains := m\<rparr>) bufs = Inr st'" for s m bufs st'
    using ticks_fields(2-5) [OF that] by simp
  with st show ?thesis by (simp add: power2_eq_square)
qed

text \<open>The source's bounds and step, and two ticks with buffers of zero bytes.\<close>

theorem init_fields_grid_witness:
  "(0::real) < 1.3
   \<and> length (xpoints (projr (init_fields (- 20) 20 1.3 (+)))) = 32
   \<and> length (ypoints (projr (init_fields (- 20) 20 1.3 (+)))) = 32
   \<and> nfaces (projr (init_fields (- 20) 20 1.3 (+))) = 32
   \<and> CHUNK (projr (init_fields (- 20) 20 1.3 (+))) = 1024
   \<and> xpoints (projr (init_fields (- 20) 20 1.3 (+))) ! 31 = 20.3
   \<and> CHUNK (projr (ticks (the_terrain (+)) [replicate 2048 0, replicate 2048 0])) = 1024"
proof -
  let ?S = "projr (init_fields (- 20) 20 1.3 (+))"
  have h: "(0::real) < 1.3" by simp
  have T: "the_terrain (+) = ?S\<lparr>mountains := mountains (the_terrain (+))\<rparr>"
    by (simp add: the_terrain_def Terrain_init_Inr init_fields_source)
  have "\<forall>b \<in> set [replicate 2048 0, replicate 2048 (0 :: 8 word)].
      length b = 2 * CHUNK (the_terrain (+))"
    by (simp add: the_terrain_fields)
  from ticks_Inr [OF this] obtain st' where
    t: "ticks (the_terrain (+)) [replicate 2048 0, replicate 2048 0] = Inr st'"
    by (auto simp: the_terrain_fields)
  from init_fields_grid [OF h, of "- 20" 20 "(+)"] obtain st where
    st: "init_fields (- 20) 20 1.3 (+) = Inr st"
    and keep: "\<forall>m bufs st'. ticks (st\<lparr>mountains := m\<rparr>) bufs = Inr st' \<longrightarrow>
          xpoints st' = xpoints st \<and> ypoints st' = ypoints st \<and> nfaces st' = nfaces st
          \<and> CHUNK st' = CHUNK st"
    by blast
  from st have S: "?S = st" by simp
  from T t have "ticks (st\<lparr>mountains := mountains (the_terrain (+))\<rparr>)
      [replicate 2048 0, replicate 2048 0] = Inr st'"
    unfolding S by (simp only:)
  with keep have "CHUNK st' = CHUNK st" by blast
  then have "CHUNK st' = CHUNK ?S" by (simp only: S)
  with t h show ?thesis by (simp add: init_fields_source)
qed

text \<open>
  C6. The constructor sets the offset to 0. A tick that returns has built the mesh from
  the offset it found and given it to the mesh item, and leaves the offset lower by
  \<open>0.059\<close>; nothing else writes it. So the ticks over \<open>k\<close> buffers of \<open>2 * CHUNK\<close> bytes
  all return, and the offset after them is \<open>-0.059 * k\<close>.
\<close>

theorem ticks_offset:
  assumes "Terrain_init nz = Inr st0"
    and "\<forall>b \<in> set bufs. length b = 2 * CHUNK st0"
  shows "offset st0 = 0
    \<and> (\<exists>st'. ticks st0 bufs = Inr st' \<and> offset st' = - 0.059 * real (length bufs))
    \<and> (\<forall>st b st'. update st b = Inr st' \<longrightarrow>
          offset st' = offset st - 0.059
          \<and> (\<exists>v f c. mesh st (offset st) 1.5 (Some b) = Inr (v, f, c)
                \<and> mountains st' = Some (v, f, Some c)))"
proof -
  from assms(1) have st0: "st0 = the_terrain nz" by (simp add: Terrain_init_the)
  then have z: "offset st0 = 0"
    and c: "CHUNK st0 = length (xpoints st0) * length (ypoints st0)"
    by (simp_all add: the_terrain_fields)
  from ticks_Inr [OF assms(2) c] obtain st' where t: "ticks st0 bufs = Inr st'" ..
  from ticks_fields(1) [OF t] z have "offset st' = - 0.059 * real (length bufs)" by simp
  moreover have "offset s' = offset s - 0.059
      \<and> (\<exists>v f c. mesh s (offset s) 1.5 (Some b) = Inr (v, f, c)
            \<and> mountains s' = Some (v, f, Some c))"
    if "update s b = Inr s'" for s b s'
    using that by (auto simp: update_def split: sum.splits)
  ultimately show ?thesis using z t by blast
qed

text \<open>The constructed object and two ticks with buffers of zero bytes.\<close>

theorem ticks_offset_witness:
  "Terrain_init (+) = Inr (the_terrain (+))
   \<and> length (replicate 2048 (0 :: 8 word)) = 2 * CHUNK (the_terrain (+))
   \<and> offset (the_terrain (+)) = 0
   \<and> offset (projr (ticks (the_terrain (+)) [replicate 2048 0, replicate 2048 0])) = - 0.118"
proof -
  have h1: "Terrain_init (+) = Inr (the_terrain (+))" by (rule Terrain_init_the)
  have h2: "\<forall>b \<in> set [replicate 2048 0, replicate 2048 (0 :: 8 word)].
      length b = 2 * CHUNK (the_terrain (+))"
    by (simp add: the_terrain_fields)
  from ticks_offset [OF h1 h2] obtain st' where
    "ticks (the_terrain (+)) [replicate 2048 0, replicate 2048 0] = Inr st'"
    "offset st' = - 0.118" by auto
  with h1 h2 show ?thesis by (simp add: the_terrain_fields)
qed

end
